theory Spec2Isabelle
  imports Main "HOL-Library.Word"
begin

unbundle bit_operations_syntax

section \<open>VTFFormat.h: image formats and size arithmetic\<close>

text \<open>
  The enumeration \<open>VTFImageFormat\<close> is read from files by a cast of a 32-bit header
  field, so a format is modelled by its integer code: codes outside the enumerators
  (for instance 99) are values the decoder really receives.

  Dimensions, counts and sizes are natural numbers. Every call site of the repository
  passes non-negative values (unsigned header fields, mip dimensions, image sizes), and
  the C++ \<open>int\<close> products are modelled on the range where they do not overflow; signed
  overflow is undefined in C++, and theorems that quantify over all dimensions carry the
  bound as a hypothesis.
\<close>

type_synonym byte = "8 word"
type_synonym VTFImageFormat = int

abbreviation (input) IMAGE_FORMAT_NONE :: VTFImageFormat where "IMAGE_FORMAT_NONE \<equiv> -1"
abbreviation (input) IMAGE_FORMAT_RGBA8888 :: VTFImageFormat where "IMAGE_FORMAT_RGBA8888 \<equiv> 0"
abbreviation (input) IMAGE_FORMAT_ABGR8888 :: VTFImageFormat where "IMAGE_FORMAT_ABGR8888 \<equiv> 1"
abbreviation (input) IMAGE_FORMAT_RGB888 :: VTFImageFormat where "IMAGE_FORMAT_RGB888 \<equiv> 2"
abbreviation (input) IMAGE_FORMAT_BGR888 :: VTFImageFormat where "IMAGE_FORMAT_BGR888 \<equiv> 3"
abbreviation (input) IMAGE_FORMAT_RGB565 :: VTFImageFormat where "IMAGE_FORMAT_RGB565 \<equiv> 4"
abbreviation (input) IMAGE_FORMAT_I8 :: VTFImageFormat where "IMAGE_FORMAT_I8 \<equiv> 5"
abbreviation (input) IMAGE_FORMAT_IA88 :: VTFImageFormat where "IMAGE_FORMAT_IA88 \<equiv> 6"
abbreviation (input) IMAGE_FORMAT_P8 :: VTFImageFormat where "IMAGE_FORMAT_P8 \<equiv> 7"
abbreviation (input) IMAGE_FORMAT_A8 :: VTFImageFormat where "IMAGE_FORMAT_A8 \<equiv> 8"
abbreviation (input) IMAGE_FORMAT_RGB888_BLUESCREEN :: VTFImageFormat where
  "IMAGE_FORMAT_RGB888_BLUESCREEN \<equiv> 9"
abbreviation (input) IMAGE_FORMAT_BGR888_BLUESCREEN :: VTFImageFormat where
  "IMAGE_FORMAT_BGR888_BLUESCREEN \<equiv> 10"
abbreviation (input) IMAGE_FORMAT_ARGB8888 :: VTFImageFormat where "IMAGE_FORMAT_ARGB8888 \<equiv> 11"
abbreviation (input) IMAGE_FORMAT_BGRA8888 :: VTFImageFormat where "IMAGE_FORMAT_BGRA8888 \<equiv> 12"
abbreviation (input) IMAGE_FORMAT_DXT1 :: VTFImageFormat where "IMAGE_FORMAT_DXT1 \<equiv> 13"
abbreviation (input) IMAGE_FORMAT_DXT3 :: VTFImageFormat where "IMAGE_FORMAT_DXT3 \<equiv> 14"
abbreviation (input) IMAGE_FORMAT_DXT5 :: VTFImageFormat where "IMAGE_FORMAT_DXT5 \<equiv> 15"
abbreviation (input) IMAGE_FORMAT_BGRX8888 :: VTFImageFormat where "IMAGE_FORMAT_BGRX8888 \<equiv> 16"
abbreviation (input) IMAGE_FORMAT_BGR565 :: VTFImageFormat where "IMAGE_FORMAT_BGR565 \<equiv> 17"
abbreviation (input) IMAGE_FORMAT_BGRX5551 :: VTFImageFormat where "IMAGE_FORMAT_BGRX5551 \<equiv> 18"
abbreviation (input) IMAGE_FORMAT_BGRA4444 :: VTFImageFormat where "IMAGE_FORMAT_BGRA4444 \<equiv> 19"
abbreviation (input) IMAGE_FORMAT_DXT1_ONEBITALPHA :: VTFImageFormat where
  "IMAGE_FORMAT_DXT1_ONEBITALPHA \<equiv> 20"
abbreviation (input) IMAGE_FORMAT_BGRA5551 :: VTFImageFormat where "IMAGE_FORMAT_BGRA5551 \<equiv> 21"
abbreviation (input) IMAGE_FORMAT_UV88 :: VTFImageFormat where "IMAGE_FORMAT_UV88 \<equiv> 22"
abbreviation (input) IMAGE_FORMAT_UVWQ8888 :: VTFImageFormat where "IMAGE_FORMAT_UVWQ8888 \<equiv> 23"
abbreviation (input) IMAGE_FORMAT_RGBA16161616F :: VTFImageFormat where
  "IMAGE_FORMAT_RGBA16161616F \<equiv> 24"
abbreviation (input) IMAGE_FORMAT_RGBA16161616 :: VTFImageFormat where
  "IMAGE_FORMAT_RGBA16161616 \<equiv> 25"
abbreviation (input) IMAGE_FORMAT_UVLX8888 :: VTFImageFormat where "IMAGE_FORMAT_UVLX8888 \<equiv> 26"

definition GetBytesPerPixel :: "VTFImageFormat \<Rightarrow> nat" where
  "GetBytesPerPixel format =
     (if format = IMAGE_FORMAT_RGBA8888 \<or> format = IMAGE_FORMAT_ABGR8888
         \<or> format = IMAGE_FORMAT_ARGB8888 \<or> format = IMAGE_FORMAT_BGRA8888
         \<or> format = IMAGE_FORMAT_BGRX8888 \<or> format = IMAGE_FORMAT_UVWQ8888
         \<or> format = IMAGE_FORMAT_UVLX8888 then 4
      else if format = IMAGE_FORMAT_RGB888 \<or> format = IMAGE_FORMAT_BGR888
         \<or> format = IMAGE_FORMAT_RGB888_BLUESCREEN
         \<or> format = IMAGE_FORMAT_BGR888_BLUESCREEN then 3
      else if format = IMAGE_FORMAT_RGB565 \<or> format = IMAGE_FORMAT_BGR565
         \<or> format = IMAGE_FORMAT_BGRX5551 \<or> format = IMAGE_FORMAT_BGRA5551
         \<or> format = IMAGE_FORMAT_BGRA4444 \<or> format = IMAGE_FORMAT_IA88
         \<or> format = IMAGE_FORMAT_UV88 then 2
      else if format = IMAGE_FORMAT_I8 \<or> format = IMAGE_FORMAT_P8
         \<or> format = IMAGE_FORMAT_A8 then 1
      else if format = IMAGE_FORMAT_RGBA16161616F
         \<or> format = IMAGE_FORMAT_RGBA16161616 then 8
      else 0)"

definition CalculateImageSize :: "nat \<Rightarrow> nat \<Rightarrow> VTFImageFormat \<Rightarrow> nat" where
  "CalculateImageSize width height format =
     (let width = (if width < 1 then 1 else width);
          height = (if height < 1 then 1 else height)
      in if format = IMAGE_FORMAT_DXT1 \<or> format = IMAGE_FORMAT_DXT1_ONEBITALPHA
           then ((width + 3) div 4) * ((height + 3) div 4) * 8
         else if format = IMAGE_FORMAT_DXT3 \<or> format = IMAGE_FORMAT_DXT5
           then ((width + 3) div 4) * ((height + 3) div 4) * 16
         else width * height * GetBytesPerPixel format)"

definition FormatHasAlpha :: "VTFImageFormat \<Rightarrow> bool" where
  "FormatHasAlpha format =
     (format = IMAGE_FORMAT_RGBA8888 \<or> format = IMAGE_FORMAT_ABGR8888
      \<or> format = IMAGE_FORMAT_ARGB8888 \<or> format = IMAGE_FORMAT_BGRA8888
      \<or> format = IMAGE_FORMAT_BGRA5551 \<or> format = IMAGE_FORMAT_BGRA4444
      \<or> format = IMAGE_FORMAT_DXT1_ONEBITALPHA \<or> format = IMAGE_FORMAT_DXT3
      \<or> format = IMAGE_FORMAT_DXT5 \<or> format = IMAGE_FORMAT_A8
      \<or> format = IMAGE_FORMAT_IA88 \<or> format = IMAGE_FORMAT_RGBA16161616F
      \<or> format = IMAGE_FORMAT_RGBA16161616)"

section \<open>Memory: reads, writes and faults\<close>




definition memcpy :: "byte list \<Rightarrow> nat \<Rightarrow> byte list \<Rightarrow> nat \<Rightarrow> nat \<Rightarrow> byte list option" where
  "memcpy dst d src s n =
     (if d + n \<le> length dst \<and> s + n \<le> length src
      then Some (take d dst @ take n (drop s src) @ drop (d + n) dst)
      else None)"

text \<open>Little-endian reads of the x86 target, as the \<open>reinterpret_cast\<close>s of the source do.\<close>

definition rd_u16 :: "byte list \<Rightarrow> nat \<Rightarrow> 16 word" where
  "rd_u16 data off = ucast (data ! off) OR push_bit 8 (ucast (data ! (off + 1)))"

definition rd_u32 :: "byte list \<Rightarrow> nat \<Rightarrow> 32 word" where
  "rd_u32 data off =
     ucast (data ! off) OR push_bit 8 (ucast (data ! (off + 1)))
       OR push_bit 16 (ucast (data ! (off + 2))) OR push_bit 24 (ucast (data ! (off + 3)))"

definition le_u16 :: "16 word \<Rightarrow> byte list" where
  "le_u16 v = [ucast v, ucast (drop_bit 8 v)]"

definition le_u32 :: "32 word \<Rightarrow> byte list" where
  "le_u32 v = [ucast v, ucast (drop_bit 8 v), ucast (drop_bit 16 v), ucast (drop_bit 24 v)]"

section \<open>DXTDecompress.h\<close>


text \<open>The sixteen pixels of a block in the order of the loops \<open>for y\<close>, \<open>for x\<close>.\<close>

definition block_coords :: "(nat \<times> nat) list" where
  "block_coords = concat (map (\<lambda>y. map (\<lambda>x. (y, x)) [0..<4]) [0..<4])"

definition mix :: "nat \<Rightarrow> byte \<Rightarrow> nat \<Rightarrow> byte \<Rightarrow> nat \<Rightarrow> byte" where
  "mix m a n b d = of_nat ((m * unat a + n * unat b) div d)"




definition DXT5_alphaPalette :: "byte \<Rightarrow> byte \<Rightarrow> byte list" where
  "DXT5_alphaPalette alpha0 alpha1 =
     (if alpha0 > alpha1
      then [alpha0, alpha1] @ map (\<lambda>i. mix (6 - i) alpha0 (i + 1) alpha1 7) [0..<6]
      else [alpha0, alpha1] @ map (\<lambda>i. mix (4 - i) alpha0 (i + 1) alpha1 5) [0..<4] @ [0, 255])"






section \<open>The header record\<close>

text \<open>
  \<open>struct VTFHeader\<close> is declared under \<open>#pragma pack(push, 1)\<close>: its fields lie at the
  offsets 0 (signature), 4 and 8 (version), 12 (headerSize), 16, 18 (width, height),
  20 (flags), 24, 26 (frames, firstFrame), 32, 36, 40 (reflectivity), 48 (bumpmapScale),
  52 (highResImageFormat), 56 (mipmapCount), 57 (lowResImageFormat), 61, 62 (low-res
  width and height), 63 (depth), 68 (numResources), with padding at 28..31, 44..47,
  65..67 and 72..79, 80 bytes in all. The fields carry the prefix \<open>hdr_\<close>; the floats are
  kept as their 32-bit patterns.
\<close>

record VTFHeader =
  hdr_signature :: "byte list"
  hdr_version0 :: "32 word"
  hdr_version1 :: "32 word"
  hdr_headerSize :: "32 word"
  hdr_width :: "16 word"
  hdr_height :: "16 word"
  hdr_flags :: "32 word"
  hdr_frames :: "16 word"
  hdr_firstFrame :: "16 word"
  hdr_reflectivity :: "32 word list"
  hdr_bumpmapScale :: "32 word"
  hdr_highResImageFormat :: "32 word"
  hdr_mipmapCount :: byte
  hdr_lowResImageFormat :: "32 word"
  hdr_lowResImageWidth :: byte
  hdr_lowResImageHeight :: byte
  hdr_depth :: "16 word"
  hdr_numResources :: "32 word"

definition sizeof_VTFHeader :: nat where
  "sizeof_VTFHeader = 80"

text \<open>
  \<open>reinterpret_cast<const VTFHeader*>(data)\<close>: the fields read in place. The callers
  check \<open>size >= sizeof(VTFHeader)\<close> first.
\<close>

definition header_of :: "byte list \<Rightarrow> VTFHeader" where
  "header_of data =
     \<lparr> hdr_signature = [data ! 0, data ! 1, data ! 2, data ! 3],
       hdr_version0 = rd_u32 data 4,
       hdr_version1 = rd_u32 data 8,
       hdr_headerSize = rd_u32 data 12,
       hdr_width = rd_u16 data 16,
       hdr_height = rd_u16 data 18,
       hdr_flags = rd_u32 data 20,
       hdr_frames = rd_u16 data 24,
       hdr_firstFrame = rd_u16 data 26,
       hdr_reflectivity = [rd_u32 data 32, rd_u32 data 36, rd_u32 data 40],
       hdr_bumpmapScale = rd_u32 data 48,
       hdr_highResImageFormat = rd_u32 data 52,
       hdr_mipmapCount = data ! 56,
       hdr_lowResImageFormat = rd_u32 data 57,
       hdr_lowResImageWidth = data ! 61,
       hdr_lowResImageHeight = data ! 62,
       hdr_depth = rd_u16 data 63,
       hdr_numResources = rd_u32 data 68 \<rparr>"

text \<open>The 80 bytes of a header in memory, as \<open>memcpy(output.data(), &header, 80)\<close> copies them.\<close>

definition bytes_of_header :: "VTFHeader \<Rightarrow> byte list" where
  "bytes_of_header h =
     take 4 (hdr_signature h) @ le_u32 (hdr_version0 h) @ le_u32 (hdr_version1 h)
     @ le_u32 (hdr_headerSize h) @ le_u16 (hdr_width h) @ le_u16 (hdr_height h)
     @ le_u32 (hdr_flags h) @ le_u16 (hdr_frames h) @ le_u16 (hdr_firstFrame h)
     @ replicate 4 0
     @ le_u32 (hdr_reflectivity h ! 0) @ le_u32 (hdr_reflectivity h ! 1)
     @ le_u32 (hdr_reflectivity h ! 2)
     @ replicate 4 0
     @ le_u32 (hdr_bumpmapScale h) @ le_u32 (hdr_highResImageFormat h)
     @ [hdr_mipmapCount h] @ le_u32 (hdr_lowResImageFormat h)
     @ [hdr_lowResImageWidth h, hdr_lowResImageHeight h] @ le_u16 (hdr_depth h)
     @ replicate 3 0 @ le_u32 (hdr_numResources h) @ replicate 8 0"

section \<open>VTFLoader\<close>

text \<open>
  The messages of \<open>m_error\<close>, one constructor each:
  \<open>FileTooSmall\<close> is "File too small for VTF header",
  \<open>InvalidSignature\<close> is "Invalid VTF signature",
  \<open>UnsupportedVersion major minor\<close> is "Unsupported VTF version: major.minor",
  \<open>FileTruncated\<close> is "File truncated - not enough image data",
  \<open>UnsupportedImageFormat f\<close> is "Unsupported image format: f".
  The empty string is \<open>None\<close>.
\<close>

datatype vtf_error =
    FileTooSmall
  | InvalidSignature
  | UnsupportedVersion int int
  | FileTruncated
  | UnsupportedImageFormat int

text \<open>
  The fields that \<open>LoadFromMemory\<close> reads or writes (\<open>m_fileData\<close> belongs to the
  file-reading overloads of \<open>Load\<close>, which are not modelled). The dimensions and counts are
  assigned from unsigned header fields only, the version fields from \<open>uint32_t\<close> converted
  to \<open>int\<close> (the two's complement value), the format by a cast of a \<open>uint32_t\<close>.
\<close>

record VTFLoader =
  m_width :: nat
  m_height :: nat
  m_frameCount :: nat
  m_mipmapCount :: nat
  m_hasAlpha :: bool
  m_format :: VTFImageFormat
  m_versionMajor :: int
  m_versionMinor :: int
  m_rgbaData :: "byte list"
  m_error :: "vtf_error option"

definition VTFLoader_init :: VTFLoader where
  "VTFLoader_init =
     \<lparr> m_width = 0, m_height = 0, m_frameCount = 0, m_mipmapCount = 0, m_hasAlpha = False,
       m_format = IMAGE_FORMAT_NONE, m_versionMajor = 0, m_versionMinor = 0,
       m_rgbaData = [], m_error = None \<rparr>"

definition ParseHeader :: "VTFLoader \<Rightarrow> byte list \<Rightarrow> bool \<times> VTFLoader" where
  "ParseHeader L data =
     (if length data < sizeof_VTFHeader then (False, L\<lparr>m_error := Some FileTooSmall\<rparr>)
      else
        let header = header_of data in
        if hdr_signature header ! 0 \<noteq> 0x56 \<or> hdr_signature header ! 1 \<noteq> 0x54
           \<or> hdr_signature header ! 2 \<noteq> 0x46 \<or> hdr_signature header ! 3 \<noteq> 0
        then (False, L\<lparr>m_error := Some InvalidSignature\<rparr>)
        else
          let L1 = L\<lparr>m_versionMajor := sint (hdr_version0 header),
                     m_versionMinor := sint (hdr_version1 header)\<rparr> in
          if m_versionMajor L1 \<noteq> 7 \<or> m_versionMinor L1 > 5
          then (False, L1\<lparr>m_error :=
                  Some (UnsupportedVersion (m_versionMajor L1) (m_versionMinor L1))\<rparr>)
          else
            let L2 = L1\<lparr>m_width := unat (hdr_width header),
                        m_height := unat (hdr_height header),
                        m_frameCount := unat (hdr_frames header),
                        m_mipmapCount := unat (hdr_mipmapCount header),
                        m_format := sint (hdr_highResImageFormat header)\<rparr>;
                L3 = L2\<lparr>m_hasAlpha := FormatHasAlpha (m_format L2)\<rparr>;
                L4 = (if m_frameCount L3 < 1 then L3\<lparr>m_frameCount := 1\<rparr> else L3);
                L5 = (if m_mipmapCount L4 < 1 then L4\<lparr>m_mipmapCount := 1\<rparr> else L4)
            in (True, L5))"

text \<open>
  The per-pixel loops of \<open>ConvertToRGBA\<close>: pixel \<open>i\<close> of the destination receives the
  four bytes \<open>f i\<close>, each a constant or a checked read of the source.
\<close>

definition rd :: "byte list \<Rightarrow> nat \<Rightarrow> byte option" where
  "rd src i = (if i < length src then Some (src ! i) else None)"



text \<open>\<open>(mipWidth > 1) ? mipWidth / 2 : 1\<close>\<close>

definition half_dim :: "nat \<Rightarrow> nat" where
  "half_dim d = (if d > 1 then d div 2 else 1)"









definition GetRGBAData :: "VTFLoader \<Rightarrow> byte list" where
  "GetRGBAData L = m_rgbaData L"

section \<open>DXTCompress\<close>

text \<open>The block is the 64-byte array \<open>block\<close> of the callers.\<close>

definition block_min :: "byte list \<Rightarrow> nat \<Rightarrow> byte" where
  "block_min rgba c =
     fold (\<lambda>i m. if rgba ! (i*4 + c) < m then rgba ! (i*4 + c) else m) [0..<16] 255"

definition block_max :: "byte list \<Rightarrow> nat \<Rightarrow> byte" where
  "block_max rgba c =
     fold (\<lambda>i m. if rgba ! (i*4 + c) > m then rgba ! (i*4 + c) else m) [0..<16] 0"

definition pack565 :: "byte list \<Rightarrow> 16 word" where
  "pack565 col =
     push_bit 11 (ucast (drop_bit 3 (col ! 0))) OR push_bit 5 (ucast (drop_bit 2 (col ! 1)))
       OR ucast (drop_bit 3 (col ! 2))"

definition INT_MAX :: int where
  "INT_MAX = 2147483647"

definition DXT1_dist :: "byte list \<Rightarrow> byte list \<Rightarrow> nat \<Rightarrow> int" where
  "DXT1_dist rgba pal i =
     sum_list (map (\<lambda>c. (uint (rgba ! (i*4 + c)) - uint (pal ! c)) * (uint (rgba ! (i*4 + c)) - uint (pal ! c))) [0..<3])"

definition DXT1_bestIdx :: "byte list \<Rightarrow> byte list list \<Rightarrow> nat \<Rightarrow> nat" where
  "DXT1_bestIdx rgba palette i =
     fst (fold (\<lambda>j (bestIdx, bestDist).
                  if DXT1_dist rgba (palette ! j) i < bestDist
                  then (j, DXT1_dist rgba (palette ! j) i) else (bestIdx, bestDist))
            [0..<4] (0, INT_MAX))"

definition CompressDXT1Block :: "byte list \<Rightarrow> byte list" where
  "CompressDXT1Block rgba =
     (let minC = map (block_min rgba) [0..<3];
          maxC = map (block_max rgba) [0..<3];
          c0 = pack565 maxC;
          c1 = pack565 minC;
          color0 = (if c0 < c1 then c1 else c0);
          color1 = (if c0 < c1 then c0 else c1);
          minColor = (if c0 < c1 then maxC else minC);
          maxColor = (if c0 < c1 then minC else maxC);
          palette = [maxColor, minColor,
                     map (\<lambda>c. mix 2 (maxColor ! c) 1 (minColor ! c) 3) [0..<3],
                     map (\<lambda>c. mix 1 (maxColor ! c) 2 (minColor ! c) 3) [0..<3]];
          indices = fold (\<lambda>i acc. acc OR push_bit (i * 2) (of_nat (DXT1_bestIdx rgba palette i)))
                      [0..<16] (0 :: 32 word)
      in le_u16 color0 @ le_u16 color1 @ le_u32 indices)"

definition CompressDXT5_alphaPalette :: "byte \<Rightarrow> byte \<Rightarrow> byte list" where
  "CompressDXT5_alphaPalette maxAlpha minAlpha =
     (if maxAlpha > minAlpha
      then [maxAlpha, minAlpha] @ map (\<lambda>i. mix (6 - i) maxAlpha (i + 1) minAlpha 7) [0..<6]
      else [maxAlpha, minAlpha] @ map (\<lambda>i. mix (4 - i) maxAlpha (i + 1) minAlpha 5) [0..<4]
             @ [0, 255])"

definition DXT5_bestIdx :: "byte list \<Rightarrow> byte list \<Rightarrow> nat \<Rightarrow> nat" where
  "DXT5_bestIdx rgba alphaPalette i =
     fst (fold (\<lambda>j (bestIdx, bestDist).
                  if \<bar>uint (rgba ! (i*4 + 3)) - uint (alphaPalette ! j)\<bar> < bestDist
                  then (j, \<bar>uint (rgba ! (i*4 + 3)) - uint (alphaPalette ! j)\<bar>)
                  else (bestIdx, bestDist))
            [0..<8] (0, INT_MAX))"

definition CompressDXT5Block :: "byte list \<Rightarrow> byte list" where
  "CompressDXT5Block rgba =
     (let minAlpha = block_min rgba 3;
          maxAlpha = block_max rgba 3;
          alphaPalette = CompressDXT5_alphaPalette maxAlpha minAlpha;
          alphaIndices = fold (\<lambda>i acc. acc OR push_bit (i * 3) (of_nat (DXT5_bestIdx rgba alphaPalette i)))
                           [0..<16] (0 :: 64 word)
      in [maxAlpha, minAlpha]
         @ map (\<lambda>i. ucast (drop_bit (i * 8) alphaIndices AND 0xFF)) [0..<6]
         @ CompressDXT1Block rgba)"

section \<open>VTFWriter\<close>

text \<open>
  The writer's fields \<open>m_width\<close>, \<open>m_height\<close>, \<open>m_hasAlpha\<close> and \<open>m_format\<close> carry the
  prefix \<open>wm_\<close>, since the loader has fields of the same names. \<open>m_error\<close> is written by
  the file-writing overloads of \<open>Write\<close> only, which are not modelled.
\<close>

record VTFWriter =
  m_sourceRGBA :: "byte list"
  wm_width :: nat
  wm_height :: nat
  wm_hasAlpha :: bool
  m_mipmaps :: "byte list list"
  wm_format :: VTFImageFormat
  m_flags :: "32 word"
  m_generateMipmaps :: bool

definition TEXTUREFLAGS_NORMAL :: "32 word" where
  "TEXTUREFLAGS_NORMAL = 0x80"

definition VTFWriter_init :: VTFWriter where
  "VTFWriter_init =
     \<lparr> m_sourceRGBA = [], wm_width = 0, wm_height = 0, wm_hasAlpha = False, m_mipmaps = [],
       wm_format = IMAGE_FORMAT_DXT5, m_flags = TEXTUREFLAGS_NORMAL,
       m_generateMipmaps = True \<rparr>"

text \<open>\<open>memcpy\<close> reads \<open>width * height * 4\<close> bytes of the caller's buffer.\<close>

definition SetImageData ::
  "VTFWriter \<Rightarrow> byte list \<Rightarrow> nat \<Rightarrow> nat \<Rightarrow> bool \<Rightarrow> VTFWriter option" where
  "SetImageData W rgba w h hasAlpha =
     (let size = w * h * 4 in
      if length rgba < size then None
      else Some (W\<lparr>wm_width := w, wm_height := h, wm_hasAlpha := hasAlpha,
                   m_sourceRGBA := take size rgba,
                   wm_format := (if \<not> hasAlpha \<and> wm_format W = IMAGE_FORMAT_DXT5
                                 then IMAGE_FORMAT_DXT1 else wm_format W)\<rparr>))"

definition SetFormat :: "VTFWriter \<Rightarrow> VTFImageFormat \<Rightarrow> VTFWriter" where
  "SetFormat W format = W\<lparr>wm_format := format\<rparr>"

definition SetFlags :: "VTFWriter \<Rightarrow> 32 word \<Rightarrow> VTFWriter" where
  "SetFlags W fl = W\<lparr>m_flags := fl\<rparr>"

definition SetGenerateMipmaps :: "VTFWriter \<Rightarrow> bool \<Rightarrow> VTFWriter" where
  "SetGenerateMipmaps W generate = W\<lparr>m_generateMipmaps := generate\<rparr>"

text \<open>
  The body of the loop over \<open>c\<close> in \<open>GenerateMipmaps\<close>: the loops over \<open>dy\<close> and \<open>dx\<close>
  stop at the first index out of the source, and \<open>sum / count\<close> divides by zero when
  no sample was read.
\<close>

definition box_average ::
  "byte list \<Rightarrow> nat \<Rightarrow> nat \<Rightarrow> nat \<Rightarrow> nat \<Rightarrow> nat \<Rightarrow> byte option" where
  "box_average src mipWidth mipHeight x y c =
     (let srcX = x * 2; srcY = y * 2;
          dys = takeWhile (\<lambda>dy. srcY + dy < mipHeight) [0..<2];
          dxs = takeWhile (\<lambda>dx. srcX + dx < mipWidth) [0..<2];
          samples = concat (map (\<lambda>dy. map (\<lambda>dx.
                       unat (src ! (((srcY + dy) * mipWidth + (srcX + dx)) * 4 + c))) dxs) dys);
          count = length samples
      in if count = 0 then None else Some (of_nat (sum_list samples div count)))"

definition downscale :: "byte list \<Rightarrow> nat \<Rightarrow> nat \<Rightarrow> nat \<Rightarrow> nat \<Rightarrow> byte list option" where
  "downscale src mipWidth mipHeight newWidth newHeight =
     those (concat (map (\<lambda>y. concat (map (\<lambda>x.
        map (\<lambda>c. box_average src mipWidth mipHeight x y c) [0..<4])
        [0..<newWidth])) [0..<newHeight]))"

function GenerateMipmaps_loop :: "byte list list \<Rightarrow> nat \<Rightarrow> nat \<Rightarrow> byte list list option" where
  "GenerateMipmaps_loop mipmaps mipWidth mipHeight =
     (if mipWidth > 1 \<or> mipHeight > 1 then
        (case downscale (last mipmaps) mipWidth mipHeight
                (half_dim mipWidth) (half_dim mipHeight) of
           None \<Rightarrow> None
         | Some dst \<Rightarrow>
             GenerateMipmaps_loop (mipmaps @ [dst]) (half_dim mipWidth) (half_dim mipHeight))
      else Some mipmaps)"
  by pat_completeness auto
termination
  by (relation "measure (\<lambda>(mipmaps, mipWidth, mipHeight). max 1 mipWidth + max 1 mipHeight)")
     (auto simp: half_dim_def)

declare GenerateMipmaps_loop.simps [simp del]

definition GenerateMipmaps :: "VTFWriter \<Rightarrow> VTFWriter option" where
  "GenerateMipmaps W =
     (if \<not> m_generateMipmaps W then Some (W\<lparr>m_mipmaps := [m_sourceRGBA W]\<rparr>)
      else map_option (\<lambda>ms. W\<lparr>m_mipmaps := ms\<rparr>)
             (GenerateMipmaps_loop [m_sourceRGBA W] (wm_width W) (wm_height W)))"

text \<open>The 4 by 4 block at block coordinates \<open>(by, bx)\<close>, zero outside the image.\<close>

definition extract_block :: "byte list \<Rightarrow> nat \<Rightarrow> nat \<Rightarrow> nat \<Rightarrow> nat \<Rightarrow> byte list option" where
  "extract_block rgba w h by bx =
     map_option concat (those (map (\<lambda>(y, x).
        let srcX = bx * 4 + x; srcY = by * 4 + y
        in if srcX < w \<and> srcY < h
           then those (map (\<lambda>k. rd rgba ((srcY * w + srcX) * 4 + k)) [0..<4])
           else Some [0, 0, 0, 0])
      block_coords))"

text \<open>
  The loops of \<open>ConvertFromRGBA\<close> with a destination: each pixel stores \<open>obpp\<close> bytes.
\<close>

definition pack_pixels ::
  "nat \<Rightarrow> nat \<Rightarrow> (nat \<Rightarrow> byte option list) \<Rightarrow> byte list \<Rightarrow> byte list option" where
  "pack_pixels pixelCount obpp f dst =
     (if pixelCount * obpp > length dst then None
      else map_option (\<lambda>px. concat px @ drop (pixelCount * obpp) dst)
             (those (map (\<lambda>i. those (f i)) [0..<pixelCount])))"

definition ConvertFromRGBA ::
  "VTFWriter \<Rightarrow> byte list \<Rightarrow> byte list \<Rightarrow> nat \<Rightarrow> nat \<Rightarrow> byte list option" where
  "ConvertFromRGBA W rgba dst w h =
     (let pixelCount = w * h in
      if wm_format W = IMAGE_FORMAT_RGBA8888 then memcpy dst 0 rgba 0 (pixelCount * 4)
      else if wm_format W = IMAGE_FORMAT_BGRA8888 then
        pack_pixels pixelCount 4
          (\<lambda>i. [rd rgba (i*4 + 2), rd rgba (i*4 + 1), rd rgba (i*4 + 0), rd rgba (i*4 + 3)]) dst
      else if wm_format W = IMAGE_FORMAT_RGB888 then
        pack_pixels pixelCount 3
          (\<lambda>i. [rd rgba (i*4 + 0), rd rgba (i*4 + 1), rd rgba (i*4 + 2)]) dst
      else if wm_format W = IMAGE_FORMAT_BGR888 then
        pack_pixels pixelCount 3
          (\<lambda>i. [rd rgba (i*4 + 2), rd rgba (i*4 + 1), rd rgba (i*4 + 0)]) dst
      else Some dst)"

text \<open>
  \<open>CompressImage\<close> returns the vector \<open>output\<close>. The first call of \<open>ConvertFromRGBA\<close>
  in the uncompressed branch passes a null destination and does nothing.
\<close>

definition CompressImage :: "VTFWriter \<Rightarrow> byte list \<Rightarrow> nat \<Rightarrow> nat \<Rightarrow> byte list option" where
  "CompressImage W rgba w h =
     (let blocksX = (w + 3) div 4; blocksY = (h + 3) div 4;
          blocks = concat (map (\<lambda>by. map (\<lambda>bx. (by, bx)) [0..<blocksX]) [0..<blocksY])
      in
      if wm_format W = IMAGE_FORMAT_DXT1 \<or> wm_format W = IMAGE_FORMAT_DXT1_ONEBITALPHA then
        map_option concat (those (map (\<lambda>(by, bx).
          map_option CompressDXT1Block (extract_block rgba w h by bx)) blocks))
      else if wm_format W = IMAGE_FORMAT_DXT5 then
        map_option concat (those (map (\<lambda>(by, bx).
          map_option CompressDXT5Block (extract_block rgba w h by bx)) blocks))
      else
        ConvertFromRGBA W rgba (replicate (w * h * GetBytesPerPixel (wm_format W)) 0) w h)"

text \<open>
  The header that the three writing functions build: \<open>VTFHeader header = {}\<close> and the
  assignments that follow. The floats 0.5 and 1.0 are the patterns \<open>0x3F000000\<close> and
  \<open>0x3F800000\<close>; \<open>IMAGE_FORMAT_NONE\<close> stored in a \<open>uint32_t\<close> is \<open>0xFFFFFFFF\<close>.
\<close>

definition build_header :: "VTFWriter \<Rightarrow> VTFHeader" where
  "build_header W =
     \<lparr> hdr_signature = [0x56, 0x54, 0x46, 0],
       hdr_version0 = 7,
       hdr_version1 = 2,
       hdr_headerSize = 80,
       hdr_width = of_nat (wm_width W),
       hdr_height = of_nat (wm_height W),
       hdr_flags = m_flags W,
       hdr_frames = 1,
       hdr_firstFrame = 0,
       hdr_reflectivity = [0x3F000000, 0x3F000000, 0x3F000000],
       hdr_bumpmapScale = 0x3F800000,
       hdr_highResImageFormat = of_int (wm_format W),
       hdr_mipmapCount = of_nat (length (m_mipmaps W)),
       hdr_lowResImageFormat = 0xFFFFFFFF,
       hdr_lowResImageWidth = 0,
       hdr_lowResImageHeight = 0,
       hdr_depth = 1,
       hdr_numResources = 0 \<rparr>"

text \<open>
  The loop of \<open>WriteToMemory\<close> runs \<open>mip\<close> from the last level down to 0; the level's
  dimensions are \<open>m_width >> mip\<close> and \<open>m_height >> mip\<close>, raised to 1.
\<close>

definition mip_dim :: "nat \<Rightarrow> nat \<Rightarrow> nat" where
  "mip_dim d mip = (if d div 2 ^ mip < 1 then 1 else d div 2 ^ mip)"

definition WriteToMemory :: "VTFWriter \<Rightarrow> (bool \<times> byte list \<times> VTFWriter) option" where
  "WriteToMemory W0 =
     (case GenerateMipmaps W0 of
        None \<Rightarrow> None
      | Some W \<Rightarrow>
          map_option (\<lambda>body. (True, bytes_of_header (build_header W) @ concat body, W))
            (those (map (\<lambda>mip. CompressImage W (m_mipmaps W ! mip)
                           (mip_dim (wm_width W) mip) (mip_dim (wm_height W) mip))
                      (rev [0..<length (m_mipmaps W)]))))"

section \<open>Statements of the specification and example inputs\<close>

text \<open>
  The eight-step alpha palette in the words of the specification:
  \<open>palette[i+2] = ((6-i)*a0 + (i+1)*a1)/7\<close> for \<open>i\<close> from 0 to 5.
\<close>

definition spec_eight_step_alpha :: "byte \<Rightarrow> byte \<Rightarrow> byte list" where
  "spec_eight_step_alpha a0 a1 = [a0, a1] @ map (\<lambda>i. mix (6 - i) a0 (i + 1) a1 7) [0..<6]"









text \<open>An 80-byte header with the signature \<open>VTF\0\<close>, the given version, and zeros.\<close>

definition header_with_version :: "byte list \<Rightarrow> byte list \<Rightarrow> byte list" where
  "header_with_version major minor = [0x56, 0x54, 0x46, 0] @ major @ minor @ replicate 68 0"

text \<open>Sixteen opaque pixels of one colour, and a block whose first pixel is transparent.\<close>

definition opaque_block :: "byte list" where
  "opaque_block = concat (replicate 16 [7, 7, 7, 255])"

definition mixed_alpha_block :: "byte list" where
  "mixed_alpha_block = [1, 2, 3, 0] @ concat (replicate 15 [7, 7, 7, 255])"






section \<open>Properties: size arithmetic\<close>

text \<open>
  Claim C3, as stated, lists \<open>CalculateImageSize(5,5,DXT1) = 8\<close>. A 5 by 5 image
  needs a 2 by 2 grid of blocks, so the function returns 32 there.
\<close>

theorem C3_size_5x5_dxt1_counterexample:
  "\<not> (CalculateImageSize 4 4 IMAGE_FORMAT_DXT1 = 8
      \<and> CalculateImageSize 5 5 IMAGE_FORMAT_DXT1 = 8
      \<and> CalculateImageSize 4 4 IMAGE_FORMAT_DXT5 = 16
      \<and> CalculateImageSize 2 2 IMAGE_FORMAT_RGBA8888 = 16)"
  by (simp add: CalculateImageSize_def GetBytesPerPixel_def)

text \<open>
  Claim C3, amended: \<open>CalculateImageSize\<close> returns 8 for a 4 by 4 DXT1 image, 32 for a
  5 by 5 DXT1 image (four padded blocks), 16 for a 4 by 4 DXT5 image and 16 for a 2 by 2
  RGBA8888 image.
\<close>

theorem C3_size_examples:
  "CalculateImageSize 4 4 IMAGE_FORMAT_DXT1 = 8
   \<and> CalculateImageSize 5 5 IMAGE_FORMAT_DXT1 = 32
   \<and> CalculateImageSize 4 4 IMAGE_FORMAT_DXT5 = 16
   \<and> CalculateImageSize 2 2 IMAGE_FORMAT_RGBA8888 = 16"
  by (simp add: CalculateImageSize_def GetBytesPerPixel_def)

section \<open>Properties: header validation\<close>

lemma ParseHeader_ok_iff:
  "fst (ParseHeader L data) \<longleftrightarrow>
     sizeof_VTFHeader \<le> length data \<and> data ! 0 = 0x56 \<and> data ! 1 = 0x54 \<and> data ! 2 = 0x46
     \<and> data ! 3 = 0 \<and> sint (rd_u32 data 4) = 7 \<and> sint (rd_u32 data 8) \<le> 5"
  by (auto simp: ParseHeader_def header_of_def Let_def)

lemma ParseHeader_rejects_bad_signature:
  "m_error (snd (ParseHeader VTFLoader_init
      ([0x58, 0x54, 0x46, 0] @ [7, 0, 0, 0] @ [2, 0, 0, 0] @ replicate 68 0)))
     = Some InvalidSignature"
  by code_simp

lemma ParseHeader_rejects_version_7_6:
  "ParseHeader VTFLoader_init (header_with_version [7, 0, 0, 0] [6, 0, 0, 0])
     = (False, VTFLoader_init\<lparr>m_versionMajor := 7, m_versionMinor := 6,
                m_error := Some (UnsupportedVersion 7 6)\<rparr>)"
  by code_simp

lemma ParseHeader_rejects_version_8_0:
  "ParseHeader VTFLoader_init (header_with_version [8, 0, 0, 0] [0, 0, 0, 0])
     = (False, VTFLoader_init\<lparr>m_versionMajor := 8, m_versionMinor := 0,
                m_error := Some (UnsupportedVersion 8 0)\<rparr>)"
  by code_simp

lemma ParseHeader_rejects_short_buffer:
  "m_error (snd (ParseHeader VTFLoader_init (replicate 79 0))) = Some FileTooSmall"
  by code_simp

text \<open>
  Claim C4: validation succeeds exactly when the buffer has 80 bytes, the signature is
  \<open>VTF\0\<close>, the major version is 7 and the minor version is at most 5. The code stores
  the unsigned minor version in an \<open>int\<close> and compares that with 5, so a header whose
  minor version is \<open>0xFFFFFFFF\<close> (read as -1) passes validation, although its minor
  version, 4294967295, is not at most 5.
\<close>

theorem C4_minor_version_sign:
  "fst (ParseHeader VTFLoader_init (header_with_version [7, 0, 0, 0] [0xFF, 0xFF, 0xFF, 0xFF]))
   \<and> uint (hdr_version1 (header_of (header_with_version [7, 0, 0, 0] [0xFF, 0xFF, 0xFF, 0xFF])))
       = 4294967295
   \<and> m_versionMinor (snd (ParseHeader VTFLoader_init
        (header_with_version [7, 0, 0, 0] [0xFF, 0xFF, 0xFF, 0xFF]))) = - 1"
  by code_simp

theorem C4_minor_version_sign_witness:
  "ParseHeader VTFLoader_init (header_with_version [7, 0, 0, 0] [0xFF, 0xFF, 0xFF, 0xFF])
     = (True, snd (ParseHeader VTFLoader_init
                     (header_with_version [7, 0, 0, 0] [0xFF, 0xFF, 0xFF, 0xFF])))"
  using C4_minor_version_sign by (simp add: prod_eq_iff)




section \<open>Properties: DXT5 alpha endpoints\<close>

lemma fold_max_eq:
  fixes f :: "nat \<Rightarrow> 'a::linorder"
  shows "fold (\<lambda>i m. if f i > m then f i else m) xs a = Max (insert a (f ` set xs))"
proof (induction xs arbitrary: a)
  case Nil
  then show ?case by simp
next
  case (Cons x xs)
  have "Max (insert (if a < f x then f x else a) (f ` set xs)) = Max (insert a (insert (f x) (f ` set xs)))"
    by (cases "f ` set xs = {}") (auto simp: max_def Max_insert)
  then show ?case using Cons.IH by simp
qed

lemma fold_min_eq:
  fixes f :: "nat \<Rightarrow> 'a::linorder"
  shows "fold (\<lambda>i m. if f i < m then f i else m) xs a = Min (insert a (f ` set xs))"
proof (induction xs arbitrary: a)
  case Nil
  then show ?case by simp
next
  case (Cons x xs)
  have "Min (insert (if f x < a then f x else a) (f ` set xs)) = Min (insert a (insert (f x) (f ` set xs)))"
    by (cases "f ` set xs = {}") (auto simp: min_def Min_insert)
  then show ?case using Cons.IH by simp
qed

lemma unat_byte_less: "unat (x :: byte) < 256"
  using unsigned_less [of x, where ?'a = nat] by simp

lemma byte_le_255: "(x :: byte) \<le> 255"
  using unat_byte_less [of x] by (simp add: word_le_nat_alt)

lemma block_max_eq: "block_max rgba c = Max ((\<lambda>i. rgba ! (i*4 + c)) ` {..<16})"
proof -
  let ?S = "(\<lambda>i. rgba ! (i*4 + c)) ` {..<16}"
  have ne: "?S \<noteq> {}" "finite ?S" by (auto simp: lessThan_empty_iff)
  have "block_max rgba c = Max (insert 0 ?S)"
    unfolding block_max_def by (subst fold_max_eq) (simp add: lessThan_atLeast0)
  also have "\<dots> = max 0 (Max ?S)"
    using ne by (rule_tac Max_insert)
  also have "\<dots> = Max ?S"
    by (simp add: max_def)
  finally show ?thesis .
qed

lemma block_min_eq: "block_min rgba c = Min ((\<lambda>i. rgba ! (i*4 + c)) ` {..<16})"
proof -
  let ?S = "(\<lambda>i. rgba ! (i*4 + c)) ` {..<16}"
  have ne: "?S \<noteq> {}" "finite ?S" by (auto simp: lessThan_empty_iff)
  have "block_min rgba c = Min (insert 255 ?S)"
    unfolding block_min_def by (subst fold_min_eq) (simp add: lessThan_atLeast0)
  also have "\<dots> = min 255 (Min ?S)"
    using ne by (rule_tac Min_insert)
  also have "\<dots> = Min ?S"
    using byte_le_255 [of "Min ?S"] by (simp only: min_absorb2)
  finally show ?thesis .
qed

lemma unat_mix:
  assumes "m + n = d" "0 < d"
  shows "unat (mix m a n b d) = (m * unat a + n * unat b) div d"
proof -
  have "unat a \<le> 255" "unat b \<le> 255"
    using unat_byte_less [of a] unat_byte_less [of b] by simp_all
  then have "m * unat a + n * unat b \<le> m * 255 + n * 255"
    by (intro add_mono mult_le_mono2)
  also have "\<dots> = d * 255"
    using assms(1) by (simp add: algebra_simps)
  finally have "m * unat a + n * unat b \<le> d * 255" .
  then have "(m * unat a + n * unat b) div d \<le> 255"
    using assms(2) div_le_mono [of "m * unat a + n * unat b" "d * 255" d] by simp
  then show ?thesis
    by (simp add: mix_def unat_of_nat)
qed


lemma block_min_le_max: "block_min rgba c \<le> block_max rgba c"
proof -
  have "block_min rgba c \<le> rgba ! c"
    unfolding block_min_eq by (rule Min_le) (auto intro: image_eqI [where x = 0])
  also have "\<dots> \<le> block_max rgba c"
    unfolding block_max_eq by (rule Max_ge) (auto intro: image_eqI [where x = 0])
  finally show ?thesis .
qed

lemma six_step_tail: "mix 2 a0 5 a1 7 \<noteq> 0 \<or> mix 1 a0 6 a1 7 \<noteq> 255"
proof (rule ccontr)
  assume "\<not> ?thesis"
  then have "unat (mix 2 a0 5 a1 7) = 0" "unat (mix 1 a0 6 a1 7) = 255" by simp_all
  then have "(2 * unat a0 + 5 * unat a1) div 7 = 0" "(1 * unat a0 + 6 * unat a1) div 7 = 255"
    by (simp_all add: unat_mix)
  then show False using unat_byte_less [of a0] unat_byte_less [of a1] by simp
qed


lemma alphaPalette_eight_step_iff:
  "DXT5_alphaPalette a0 a1 = spec_eight_step_alpha a0 a1 \<longleftrightarrow> a1 < a0"
proof (cases "a1 < a0")
  case True
  then show ?thesis by (simp add: DXT5_alphaPalette_def spec_eight_step_alpha_def)
next
  case False
  have six: "[0..<6] = [0, 1, 2, 3, 4, 5]" "[0..<4] = [0, 1, 2, 3]"
    by (simp_all add: upt_rec)
  have d: "DXT5_alphaPalette a0 a1 ! 6 = 0" "DXT5_alphaPalette a0 a1 ! 7 = 255"
    using False by (simp_all add: DXT5_alphaPalette_def six)
  have e: "spec_eight_step_alpha a0 a1 ! 6 = mix 2 a0 5 a1 7"
          "spec_eight_step_alpha a0 a1 ! 7 = mix 1 a0 6 a1 7"
    by (simp_all add: spec_eight_step_alpha_def six)
  have "DXT5_alphaPalette a0 a1 \<noteq> spec_eight_step_alpha a0 a1"
  proof
    assume "DXT5_alphaPalette a0 a1 = spec_eight_step_alpha a0 a1"
    then have "mix 2 a0 5 a1 7 = 0" "mix 1 a0 6 a1 7 = 255"
      using d e by simp_all
    then show False using six_step_tail [of a0 a1] by simp
  qed
  with False show ?thesis by simp
qed

lemma CompressDXT5Block_endpoints:
  "CompressDXT5Block rgba ! 0 = block_max rgba 3"
  "CompressDXT5Block rgba ! 1 = block_min rgba 3"
  by (simp_all add: CompressDXT5Block_def Let_def)

lemma uniform_iff:
  "block_min rgba c < block_max rgba c
     \<longleftrightarrow> (\<exists>i<16. \<exists>j<16. rgba ! (i*4 + c) \<noteq> rgba ! (j*4 + c))"
proof
  let ?f = "\<lambda>i. rgba ! (i*4 + c)"
  let ?S = "?f ` {..<(16::nat)}"
  have ne: "finite ?S" "?S \<noteq> {}" by (simp_all add: lessThan_empty_iff)
  assume lt: "block_min rgba c < block_max rgba c"
  have "Min ?S \<in> ?S" "Max ?S \<in> ?S"
    by (rule Min_in [OF ne], rule Max_in [OF ne])
  then obtain i j where ij: "i < 16" "j < 16" "Min ?S = ?f i" "Max ?S = ?f j"
    by blast
  have "?f i \<noteq> ?f j"
    using lt ij(3,4) by (simp add: block_min_eq block_max_eq)
  with ij(1,2) show "\<exists>i<16. \<exists>j<16. rgba ! (i*4 + c) \<noteq> rgba ! (j*4 + c)"
    by blast
next
  let ?f = "\<lambda>i. rgba ! (i*4 + c)"
  let ?S = "?f ` {..<(16::nat)}"
  have fin: "finite ?S" by simp
  assume "\<exists>i<16. \<exists>j<16. rgba ! (i*4 + c) \<noteq> rgba ! (j*4 + c)"
  then obtain i j where ij: "i < 16" "j < 16" "?f i \<noteq> ?f j" by blast
  have mem: "?f i \<in> ?S" "?f j \<in> ?S" using ij(1,2) by blast+
  have a: "block_min rgba c \<le> ?f i" "block_min rgba c \<le> ?f j"
    unfolding block_min_eq by (rule Min_le [OF fin mem(1)], rule Min_le [OF fin mem(2)])
  have b: "?f i \<le> block_max rgba c" "?f j \<le> block_max rgba c"
    unfolding block_max_eq by (rule Max_ge [OF fin mem(1)], rule Max_ge [OF fin mem(2)])
  show "block_min rgba c < block_max rgba c"
  proof (rule ccontr)
    assume "\<not> ?thesis"
    then have c: "block_max rgba c \<le> block_min rgba c" by simp
    have "?f i \<le> ?f j" using b(1) c a(2) by (rule order.trans [OF order.trans])
    moreover have "?f j \<le> ?f i" using b(2) c a(1) by (rule order.trans [OF order.trans])
    ultimately have "?f i = ?f j" by (rule order.antisym)
    with ij(3) show False by simp
  qed
qed


text \<open>
  Claim C6, as stated, has the decoder always take the eight-step branch. For a block of
  sixteen opaque pixels the encoder writes 255 to both endpoint bytes, the decoder's test
  \<open>alpha0 > alpha1\<close> fails, and its palette is the six-step one with 0 and 255 at the end.
\<close>

theorem C6_uniform_alpha_counterexample:
  "CompressDXT5Block opaque_block ! 0 = 255
   \<and> CompressDXT5Block opaque_block ! 1 = 255
   \<and> DXT5_alphaPalette 255 255 = [255, 255, 255, 255, 255, 255, 0, 255]
   \<and> DXT5_alphaPalette 255 255 \<noteq> spec_eight_step_alpha 255 255"
proof -
  have "block_max opaque_block 3 = 255" "block_min opaque_block 3 = 255"
    by code_simp+
  moreover have "DXT5_alphaPalette 255 255 = [255, 255, 255, 255, 255, 255, 0, 255]"
    by code_simp
  moreover have "DXT5_alphaPalette 255 255 \<noteq> spec_eight_step_alpha 255 255"
    by (simp add: alphaPalette_eight_step_iff)
  ultimately show ?thesis
    by (simp only: CompressDXT5Block_endpoints) simp
qed

text \<open>
  Claim C6, amended: for every 4 by 4 block, \<open>CompressDXT5Block\<close> writes 16 bytes, the
  exact maximum alpha in byte 0 and the exact minimum alpha in byte 1, so byte 0 is at
  least byte 1; the decoder's alpha palette for these endpoints is the eight-step palette
  exactly when two pixels of the block differ in alpha. For a block of uniform alpha the
  endpoints are equal and the decoder takes the six-step branch.
\<close>

theorem C6_dxt5_alpha_endpoints:
  assumes "length rgba = 64"
  shows "length (CompressDXT5Block rgba) = 16
     \<and> CompressDXT5Block rgba ! 0 = Max ((\<lambda>i. rgba ! (i*4 + 3)) ` {..<16})
     \<and> CompressDXT5Block rgba ! 1 = Min ((\<lambda>i. rgba ! (i*4 + 3)) ` {..<16})
     \<and> CompressDXT5Block rgba ! 1 \<le> CompressDXT5Block rgba ! 0
     \<and> (DXT5_alphaPalette (CompressDXT5Block rgba ! 0) (CompressDXT5Block rgba ! 1)
           = spec_eight_step_alpha (CompressDXT5Block rgba ! 0) (CompressDXT5Block rgba ! 1))
         = (\<exists>i<16. \<exists>j<16. rgba ! (i*4 + 3) \<noteq> rgba ! (j*4 + 3))"
proof -
  note e0 = CompressDXT5Block_endpoints(1) [of rgba]
    and e1 = CompressDXT5Block_endpoints(2) [of rgba]
  have len: "length (CompressDXT5Block rgba) = 16"
    by (simp add: CompressDXT5Block_def CompressDXT1Block_def Let_def le_u16_def le_u32_def)
  show ?thesis
    unfolding e0 e1 alphaPalette_eight_step_iff uniform_iff
    using len block_min_le_max [of rgba 3]
    by (simp add: e0 e1 block_max_eq block_min_eq)
qed

theorem C6_dxt5_alpha_endpoints_witness:
  "length mixed_alpha_block = 64
   \<and> CompressDXT5Block mixed_alpha_block ! 0
       = Max ((\<lambda>i. mixed_alpha_block ! (i*4 + 3)) ` {..<16})
   \<and> CompressDXT5Block mixed_alpha_block ! 1
       = Min ((\<lambda>i. mixed_alpha_block ! (i*4 + 3)) ` {..<16})
   \<and> CompressDXT5Block mixed_alpha_block ! 1 \<le> CompressDXT5Block mixed_alpha_block ! 0"
proof -
  have h: "length mixed_alpha_block = 64"
    by code_simp
  show ?thesis
    using h C6_dxt5_alpha_endpoints [OF h] by blast
qed

section \<open>Properties: locating the mip-0 image\<close>














section \<open>Properties: formats without a converter\<close>







section \<open>Properties: destination writes of DecompressDXT\<close>





























end
